theory Spec2Isabelle
  imports Main "HOL-Library.Word"
begin

section \<open>Errors\<close>

text \<open>
  Every way in which the C++ code leaves its normal control flow is a value of this type:
  the \<^verbatim>\<open>throw "type is unmatch!"\<close> of \<^verbatim>\<open>Any::cast_\<close>, an exception raised by a user's
  \<^verbatim>\<open>Task::run\<close>, and the operations whose behaviour C++ leaves undefined
  (\<^verbatim>\<open>front()\<close> of an empty queue, a dereference of a null or dangling pointer, a signed
  overflow).
\<close>

datatype error =
    TypeMismatch
  | TaskFailure string
  | UndefinedBehaviour

section \<open>Any: the type-erased value (threadpool.hpp, class Any)\<close>

text \<open>
  \<^verbatim>\<open>Any\<close> holds a \<^verbatim>\<open>unique_ptr<Base>\<close> that is null or points to a \<^verbatim>\<open>Derive<T>\<close> with one
  field \<^verbatim>\<open>data_\<close> of type \<^verbatim>\<open>T\<close>. The instantiations of the template are a closed universe
  of value types here; the dynamic type of a \<^verbatim>\<open>Derive<T>\<close> object is the tag of the value
  it holds. Source names ending in an underscore (\<^verbatim>\<open>cast_\<close>, \<^verbatim>\<open>data_\<close>, \<^verbatim>\<open>resource_\<close>,
  \<^verbatim>\<open>task_\<close>, \<^verbatim>\<open>isValid_\<close>) are written without it.
\<close>

datatype ctype = T_int | T_unsigned | T_long | T_bool | T_char | T_string | T_cstr

datatype cvalue =
    V_int "32 word"
  | V_unsigned "32 word"
  | V_long "64 word"
  | V_bool bool
  | V_char "8 word"
  | V_string string
  | V_cstr string

fun type_of :: "cvalue \<Rightarrow> ctype" where
  "type_of (V_int _) = T_int"
| "type_of (V_unsigned _) = T_unsigned"
| "type_of (V_long _) = T_long"
| "type_of (V_bool _) = T_bool"
| "type_of (V_char _) = T_char"
| "type_of (V_string _) = T_string"
| "type_of (V_cstr _) = T_cstr"

datatype Any = Any (base_ptr: "cvalue option")

text \<open>\<^verbatim>\<open>Any() = default\<close>: the pointer is null.\<close>

definition Any_default :: Any where
  "Any_default = Any None"

text \<open>\<^verbatim>\<open>template<typename T> Any(T data) : base_ptr(make_unique<Derive<T>>(data))\<close>.\<close>

definition Any_of :: "cvalue \<Rightarrow> Any" where
  "Any_of data = Any (Some data)"

text \<open>
  \<^verbatim>\<open>template<typename T> T cast_()\<close>: the \<^verbatim>\<open>dynamic_cast<Derive<T>*>\<close> is null when the
  pointer is null or when the object's dynamic type is not \<^verbatim>\<open>Derive<T>\<close>; then the function
  throws, otherwise it returns \<^verbatim>\<open>pd->data_\<close>.
\<close>

definition Any_cast :: "ctype \<Rightarrow> Any \<Rightarrow> error + cvalue" where
  "Any_cast T a =
     (case base_ptr a of
        None \<Rightarrow> Inl TypeMismatch
      | Some data \<Rightarrow> if type_of data = T then Inr data else Inl TypeMismatch)"

section \<open>Semaphore (threadpool.hpp, class Semaphore)\<close>

text \<open>
  The counter is a C++ \<^verbatim>\<open>int\<close>, modelled as an integer with the limit of the type written
  out where the code can reach it: \<^verbatim>\<open>resource_++\<close> at \<^verbatim>\<open>INT_MAX\<close> is a signed overflow,
  which C++ leaves undefined; \<^verbatim>\<open>resource_--\<close> runs only on a positive count. The
  functions describe one thread running the method while no other thread changes the
  object. \<^verbatim>\<open>wait()\<close> blocks on the condition variable while \<^verbatim>\<open>resource_ > 0\<close> is false: the
  value \<open>None\<close> is a caller that stays blocked (only another thread's \<^verbatim>\<open>post()\<close> can
  release it).
\<close>

record Semaphore =
  resource :: int

definition INT_MAX :: int where
  "INT_MAX = 2147483647"

definition Semaphore_ctor :: "int \<Rightarrow> Semaphore" where
  "Semaphore_ctor r = \<lparr>resource = r\<rparr>"

definition wait :: "Semaphore \<Rightarrow> Semaphore option" where
  "wait s = (if 0 < resource s then Some (s\<lparr>resource := resource s - 1\<rparr>) else None)"

definition post :: "Semaphore \<Rightarrow> error + Semaphore" where
  "post s =
     (if resource s < INT_MAX then Inr (s\<lparr>resource := resource s + 1\<rparr>)
      else Inl UndefinedBehaviour)"

section \<open>Result (threadpool.hpp and threadpool.cpp, class Result)\<close>

type_synonym addr = nat

text \<open>A \<^verbatim>\<open>shared_ptr<Task>\<close> or a \<^verbatim>\<open>Result*\<close>: null, or the address of an object.\<close>

type_synonym ptr = "addr option"

record Result =
  anyres :: Any
  sem :: Semaphore
  task :: ptr
  isValid :: bool

text \<open>
  \<^verbatim>\<open>Any Result::get()\<close>: an invalid Result returns \<^verbatim>\<open>""\<close>, which the template constructor
  of Any boxes as a \<^verbatim>\<open>const char*\<close>; a valid one waits on the semaphore and then moves
  \<^verbatim>\<open>anyres\<close> out, which leaves the member's pointer null. The function returns the value and
  the Result as the call leaves it; \<open>None\<close> is a call blocked in \<^verbatim>\<open>sem.wait()\<close>.
\<close>

definition get :: "Result \<Rightarrow> (Any \<times> Result) option" where
  "get r =
     (if \<not> isValid r then Some (Any_of (V_cstr ''''), r)
      else case wait (sem r) of
             None \<Rightarrow> None
           | Some s' \<Rightarrow> Some (anyres r, r\<lparr>anyres := Any None, sem := s'\<rparr>))"

text \<open>
  \<^verbatim>\<open>void Result::setAny(Any any)\<close>: \<^verbatim>\<open>anyres = move(any); sem.post();\<close> The call is
  undefined when the post overflows the counter.
\<close>

definition setAny :: "Any \<Rightarrow> Result \<Rightarrow> error + Result" where
  "setAny any r =
     (case post (sem r) of
        Inl e \<Rightarrow> Inl e
      | Inr s' \<Rightarrow> Inr (r\<lparr>anyres := any, sem := s'\<rparr>))"

section \<open>Task and the objects it shares with its Result\<close>

text \<open>
  A Task is an object that a \<^verbatim>\<open>shared_ptr<Task>\<close> in the queue and the \<^verbatim>\<open>Result*\<close> of the task
  itself alias, so tasks and results live in a store, addressed by number. \<^verbatim>\<open>Task\<close> is
  abstract: the subclass's \<^verbatim>\<open>run()\<close> is the field \<open>run\<close>. User code may change the world
  outside the pool (the component \<open>world\<close>, of any type) and may throw: \<open>run\<close> takes the
  world and gives back the world it leaves together with the value it returns (\<open>Inr\<close>) or
  the exception it throws (\<open>Inl\<close>).
\<close>

record 'w Task =
  result :: ptr
  run :: "'w \<Rightarrow> (error + Any) \<times> 'w"

record 'w store =
  tasks :: "addr \<rightharpoonup> 'w Task"
  results :: "addr \<rightharpoonup> Result"
  world :: 'w

text \<open>\<^verbatim>\<open>Task::Task() : result(nullptr)\<close>, for a subclass whose \<^verbatim>\<open>run\<close> is \<open>f\<close>.\<close>

definition Task_ctor :: "('w \<Rightarrow> (error + Any) \<times> 'w) \<Rightarrow> 'w Task" where
  "Task_ctor f = \<lparr>result = None, run = f\<rparr>"

text \<open>\<^verbatim>\<open>void Task::setResult(Result* res) { result = res; }\<close>\<close>

definition setResult :: "ptr \<Rightarrow> 'w Task \<Rightarrow> 'w Task" where
  "setResult res t = t\<lparr>result := res\<rparr>"

text \<open>
  \<^verbatim>\<open>Result::Result(shared_ptr<Task> task, bool isValid)\<close>, constructing the object at address
  \<open>this\<close>: the members are initialised (\<^verbatim>\<open>anyres\<close> empty, the semaphore at 0) and
  \<^verbatim>\<open>task_->setResult(this)\<close> stores the new object's address in the task. A null or
  dangling \<^verbatim>\<open>task\<close> is dereferenced there.
\<close>

definition Result_ctor :: "addr \<Rightarrow> ptr \<Rightarrow> bool \<Rightarrow> 'w store \<Rightarrow> error + 'w store" where
  "Result_ctor this tp valid h =
     (case tp of
        None \<Rightarrow> Inl UndefinedBehaviour
      | Some ta \<Rightarrow>
          (case tasks h ta of
             None \<Rightarrow> Inl UndefinedBehaviour
           | Some t \<Rightarrow>
               Inr (h\<lparr>tasks := (tasks h)(ta \<mapsto> setResult (Some this) t),
                      results := (results h)(this \<mapsto>
                        \<lparr>anyres = Any_default, sem = Semaphore_ctor 0,
                         task = tp, isValid = valid\<rparr>)\<rparr>)))"

text \<open>
  \<^verbatim>\<open>void Task::exec() { if(result == nullptr) { return; } result->setAny(run()); }\<close>

  The argument \<^verbatim>\<open>run()\<close> is evaluated first; the function has no handler, so an exception
  of \<^verbatim>\<open>run\<close> leaves \<^verbatim>\<open>exec\<close>. Both outcomes carry the store as the call leaves it: \<open>Inr\<close>
  after a normal return, \<open>Inl\<close> with the error that propagates to the caller.
\<close>

definition exec :: "'w Task \<Rightarrow> 'w store \<Rightarrow> (error \<times> 'w store) + 'w store" where
  "exec t h =
     (case result t of
        None \<Rightarrow> Inr h
      | Some ra \<Rightarrow>
          (case run t (world h) of
             (Inl e, w') \<Rightarrow> Inl (e, h\<lparr>world := w'\<rparr>)
           | (Inr any, w') \<Rightarrow>
               (case results h ra of
                  None \<Rightarrow> Inl (UndefinedBehaviour, h\<lparr>world := w'\<rparr>)
                | Some r \<Rightarrow>
                    (case setAny any r of
                       Inl e \<Rightarrow> Inl (e, h\<lparr>world := w'\<rparr>)
                     | Inr r' \<Rightarrow>
                         Inr (h\<lparr>results := (results h)(ra \<mapsto> r'), world := w'\<rparr>)))))"

section \<open>ThreadPool (threadpool.hpp and threadpool.cpp, class ThreadPool)\<close>

datatype PoolMode = MODE_FIXED | MODE_CACHED

text \<open>
  A \<^verbatim>\<open>Thread\<close> object holds the function it was given; the pool only ever binds its own
  \<^verbatim>\<open>threadFunc\<close>. The member \<^verbatim>\<open>threadID\<close> is never written.
\<close>

datatype ThreadFunc = Bound_threadFunc

record Thread =
  func :: ThreadFunc

text \<open>
  The fields of the class, with the widths of the source: \<^verbatim>\<open>size_t initThreadSize\<close>,
  \<^verbatim>\<open>atomic_uint taskSize\<close>, and the \<^verbatim>\<open>int\<close>s as the 32 bits that hold them. The queue of
  \<^verbatim>\<open>shared_ptr<Task>\<close> is a list with its front at the head.
\<close>

record ThreadPool =
  threads :: "Thread list"
  initThreadSize :: "64 word"
  threadCapacity :: "32 word"
  currentThreadSize :: "32 word"
  taskque :: "ptr list"
  taskSize :: "32 word"
  taskCapacity :: "32 word"
  poolMode :: PoolMode
  isRunning :: bool
  idleThreadSize :: "32 word"

definition TASK_MAX_THREADPOOL :: "32 word" where
  "TASK_MAX_THREADPOOL = 1024"

text \<open>
  \<^verbatim>\<open>ThreadPool::ThreadPool()\<close> initialises four members; the two containers are
  default-constructed empty. \<^verbatim>\<open>threadCapacity\<close>, \<^verbatim>\<open>currentThreadSize\<close>, \<^verbatim>\<open>isRunning\<close> and
  \<^verbatim>\<open>idleThreadSize\<close> are left as the memory \<open>mem\<close> of the new object holds them.
\<close>

definition ThreadPool_ctor :: "ThreadPool \<Rightarrow> ThreadPool" where
  "ThreadPool_ctor mem =
     mem\<lparr>threads := [], initThreadSize := 0, taskque := [], taskSize := 0,
         taskCapacity := TASK_MAX_THREADPOOL, poolMode := MODE_FIXED\<rparr>"

text \<open>\<^verbatim>\<open>void ThreadPool::setMode(PoolMode mode) { poolMode = mode; }\<close>\<close>

definition setMode :: "PoolMode \<Rightarrow> ThreadPool \<Rightarrow> ThreadPool" where
  "setMode mode p = p\<lparr>poolMode := mode\<rparr>"

text \<open>
  \<^verbatim>\<open>void ThreadPool::setTaskCapacity(int capacity) { taskSize = capacity; }\<close>

  The \<^verbatim>\<open>int\<close> is converted to the \<^verbatim>\<open>unsigned\<close> of the atomic: the same 32 bits.
\<close>

definition setTaskCapacity :: "32 word \<Rightarrow> ThreadPool \<Rightarrow> ThreadPool" where
  "setTaskCapacity capacity p = p\<lparr>taskSize := capacity\<rparr>"

text \<open>
  The predicate of \<^verbatim>\<open>notFull.wait_for\<close>, \<^verbatim>\<open>taskCapacity > taskSize\<close>: an \<^verbatim>\<open>int\<close> against an
  \<^verbatim>\<open>unsigned\<close>, so both are compared as unsigned. The predicate of \<^verbatim>\<open>notEmpty.wait\<close> is
  \<^verbatim>\<open>taskSize > 0\<close>.
\<close>

definition notFull :: "ThreadPool \<Rightarrow> bool" where
  "notFull p = (taskSize p < taskCapacity p)"

definition notEmpty :: "ThreadPool \<Rightarrow> bool" where
  "notEmpty p = (0 < taskSize p)"

text \<open>
  \<^verbatim>\<open>cv.wait_for(lock, timeout, pred)\<close> is
  \<^verbatim>\<open>while (!pred()) if (wait_until(...) == timeout) return pred(); return true;\<close>
  and the lock is released while the thread sleeps. The list \<open>env\<close> holds what the other
  threads do to the pool under the lock between two wake-ups of this thread, up to the
  time limit: the empty list is a wait in which nobody else touches the pool. The function
  gives the value \<^verbatim>\<open>wait_for\<close> returns, and the pool as the caller finds it, lock held.
\<close>

fun wait_for :: "(ThreadPool \<Rightarrow> bool) \<Rightarrow> (ThreadPool \<Rightarrow> ThreadPool) list \<Rightarrow> ThreadPool
    \<Rightarrow> bool \<times> ThreadPool" where
  "wait_for pred [] p = (pred p, p)"
| "wait_for pred (e # env) p = (if pred p then (True, p) else wait_for pred env (e p))"

text \<open>
  \<^verbatim>\<open>Result ThreadPool::submitTask(shared_ptr<Task> task)\<close>: lock, wait at most one second for
  \<^verbatim>\<open>taskCapacity > taskSize\<close>, then \<^verbatim>\<open>taskque.emplace(task); taskSize++;\<close> and notify. The
  value of \<^verbatim>\<open>wait_for\<close> is not used. The body reads no other member and ends without a
  \<^verbatim>\<open>return\<close>: it constructs no Result, and what the caller receives is not defined by
  C++. The model is the effect of the body's statements on the pool, which it gives back.
\<close>

definition submitTask :: "(ThreadPool \<Rightarrow> ThreadPool) list \<Rightarrow> ptr \<Rightarrow> ThreadPool \<Rightarrow> ThreadPool" where
  "submitTask env tp p =
     (let (ok, p1) = wait_for notFull env p
      in p1\<lparr>taskque := taskque p1 @ [tp], taskSize := taskSize p1 + 1\<rparr>)"

text \<open>
  The locked block of \<^verbatim>\<open>ThreadPool::threadFunc\<close>: wait for \<^verbatim>\<open>taskSize > 0\<close>, then
  \<^verbatim>\<open>task = taskque.front(); taskque.pop(); taskSize--;\<close>. The wait has no time limit:
  \<open>None\<close> is a worker that stays blocked in a pool nobody else changes. \<^verbatim>\<open>front()\<close> of an
  empty queue is undefined.
\<close>

definition take_task :: "ThreadPool \<Rightarrow> (error + ptr \<times> ThreadPool) option" where
  "take_task p =
     (if \<not> notEmpty p then None
      else case taskque p of
             [] \<Rightarrow> Some (Inl UndefinedBehaviour)
           | tp # rest \<Rightarrow> Some (Inr (tp, p\<lparr>taskque := rest, taskSize := taskSize p - 1\<rparr>)))"

text \<open>
  One round of the \<^verbatim>\<open>for(;;)\<close> of \<^verbatim>\<open>threadFunc\<close>: the locked block, then
  \<^verbatim>\<open>if(task != nullptr) { task->exec(); }\<close> outside the lock. The loop has no \<^verbatim>\<open>break\<close>,
  no \<^verbatim>\<open>return\<close> and no handler: a round ends blocked, or ready for the next round, or
  with an error that leaves the loop and so the thread's function.
\<close>

datatype 'w round = Blocked | Threw error ThreadPool "'w store" | Next ThreadPool "'w store"

definition threadFunc_round :: "ThreadPool \<Rightarrow> 'w store \<Rightarrow> 'w round" where
  "threadFunc_round p h =
     (case take_task p of
        None \<Rightarrow> Blocked
      | Some (Inl e) \<Rightarrow> Threw e p h
      | Some (Inr (tp, p')) \<Rightarrow>
          (case tp of
             None \<Rightarrow> Next p' h
           | Some ta \<Rightarrow>
               (case tasks h ta of
                  None \<Rightarrow> Threw UndefinedBehaviour p' h
                | Some t \<Rightarrow>
                    (case exec t h of
                       Inl (e, h') \<Rightarrow> Threw e p' h'
                     | Inr h' \<Rightarrow> Next p' h'))))"

text \<open>The loop itself, for at most \<open>n\<close> rounds.\<close>

fun threadFunc :: "nat \<Rightarrow> ThreadPool \<Rightarrow> 'w store \<Rightarrow> 'w round" where
  "threadFunc 0 p h = Next p h"
| "threadFunc (Suc n) p h =
     (case threadFunc_round p h of
        Next p' h' \<Rightarrow> threadFunc n p' h'
      | r \<Rightarrow> r)"

section \<open>Threads: start, Thread::begin, the workers and stop\<close>

text \<open>
  The operating system's threads are not a member of the pool: \<^verbatim>\<open>Thread::begin\<close> creates a
  \<^verbatim>\<open>std::thread\<close> on the Thread's function and detaches it at once, so nothing in the
  program keeps a handle. A process is the pool, the store of tasks and results, and the
  detached threads, each given by the function it runs. An exception that leaves the
  function of a \<^verbatim>\<open>std::thread\<close> calls \<^verbatim>\<open>std::terminate\<close>, which ends the whole process:
  \<open>terminated\<close> holds that exception from then on.
\<close>

record 'w Process =
  pool :: ThreadPool
  heap :: "'w store"
  detached :: "ThreadFunc list"
  terminated :: "error option"

text \<open>
  \<^verbatim>\<open>void Thread::begin() { thread t(func); t.detach(); }\<close>: one more detached thread, which
  runs \<^verbatim>\<open>func\<close>.
\<close>

definition Thread_begin :: "Thread \<Rightarrow> 'w Process \<Rightarrow> 'w Process" where
  "Thread_begin th pr = pr\<lparr>detached := detached pr @ [func th]\<rparr>"

text \<open>
  The two loops of \<^verbatim>\<open>ThreadPool::start\<close>, \<^verbatim>\<open>for(int i = 0; i < initThreadSize; i++)\<close>: the
  first appends a new Thread to \<^verbatim>\<open>threads\<close>, the second calls \<^verbatim>\<open>threads[i]->begin()\<close>.
\<close>

fun start_emplace :: "nat \<Rightarrow> ThreadPool \<Rightarrow> ThreadPool" where
  "start_emplace 0 p = p"
| "start_emplace (Suc n) p =
     start_emplace n (p\<lparr>threads := threads p @ [\<lparr>func = Bound_threadFunc\<rparr>]\<rparr>)"

fun start_begin :: "nat \<Rightarrow> nat \<Rightarrow> 'w Process \<Rightarrow> error + 'w Process" where
  "start_begin i 0 pr = Inr pr"
| "start_begin i (Suc n) pr =
     (if i < length (threads (pool pr))
      then start_begin (Suc i) n (Thread_begin (threads (pool pr) ! i) pr)
      else Inl UndefinedBehaviour)"

text \<open>
  \<^verbatim>\<open>void ThreadPool::start(int size)\<close>. \<^verbatim>\<open>initThreadSize = size\<close> converts the \<^verbatim>\<open>int\<close> to
  \<^verbatim>\<open>size_t\<close>; a negative size becomes a bound that the \<^verbatim>\<open>int\<close> counter of the loops cannot
  reach without overflow. The function returns when the threads are created; what they do
  afterwards are rounds of the process, below.
\<close>

definition start :: "32 word \<Rightarrow> 'w Process \<Rightarrow> error + 'w Process" where
  "start sz pr =
     (if sint sz < 0 then Inl UndefinedBehaviour
      else
        let n = nat (sint sz);
            p1 = (pool pr)\<lparr>initThreadSize := scast sz\<rparr>;
            p2 = start_emplace n p1
        in start_begin 0 n (pr\<lparr>pool := p2\<rparr>))"

text \<open>\<^verbatim>\<open>void stop() { }\<close>: the body is empty.\<close>

definition stop :: "'w Process \<Rightarrow> 'w Process" where
  "stop pr = pr"

text \<open>
  The detached thread number \<open>i\<close> runs one round of its function, \<^verbatim>\<open>threadFunc\<close>, on the
  pool and the store of the process. A blocked worker changes nothing. An exception that
  leaves the round leaves \<^verbatim>\<open>threadFunc\<close>, since its loop has no handler, and terminates the
  process with all its threads. Nothing runs in a terminated process, and there is no
  round for a thread that does not exist. A round is one step here: its locked block
  changes only the pool and its \<^verbatim>\<open>exec\<close> only the store, so the \<^verbatim>\<open>exec\<close> of one worker
  does not interfere with the locked blocks of the others; user code that runs in several
  workers at the same time is taken one \<^verbatim>\<open>run\<close> after the other.
\<close>

definition thread_round :: "nat \<Rightarrow> 'w Process \<Rightarrow> error + 'w Process" where
  "thread_round i pr =
     (if terminated pr \<noteq> None \<or> length (detached pr) \<le> i then Inr pr
      else case detached pr ! i of
        Bound_threadFunc \<Rightarrow>
          (case threadFunc_round (pool pr) (heap pr) of
             Blocked \<Rightarrow> Inr pr
           | Next p' h' \<Rightarrow> Inr (pr\<lparr>pool := p', heap := h'\<rparr>)
           | Threw e p' h' \<Rightarrow>
               (case e of
                  UndefinedBehaviour \<Rightarrow> Inl UndefinedBehaviour
                | _ \<Rightarrow> Inr (pr\<lparr>pool := p', heap := h', detached := [],
                               terminated := Some e\<rparr>))))"

text \<open>
  What the threads of a process do, one after the other: the main thread calls \<^verbatim>\<open>start\<close>,
  \<^verbatim>\<open>submitTask\<close> (its locked section, as in the executions of the queue below) or \<^verbatim>\<open>stop\<close>,
  and a worker makes a round.
\<close>

datatype action = Act_start "32 word" | Act_submit ptr | Act_round nat | Act_stop

fun act :: "action \<Rightarrow> 'w Process \<Rightarrow> error + 'w Process" where
  "act (Act_start sz) pr = (if terminated pr \<noteq> None then Inr pr else start sz pr)"
| "act (Act_submit tp) pr =
     (if terminated pr \<noteq> None then Inr pr
      else Inr (pr\<lparr>pool := submitTask [] tp (pool pr)\<rparr>))"
| "act (Act_round i) pr = thread_round i pr"
| "act Act_stop pr = (if terminated pr \<noteq> None then Inr pr else Inr (stop pr))"

fun run_process :: "action list \<Rightarrow> 'w Process \<Rightarrow> error + 'w Process" where
  "run_process [] pr = Inr pr"
| "run_process (a # as) pr =
     (case act a pr of
        Inl e \<Rightarrow> Inl e
      | Inr pr' \<Rightarrow> run_process as pr')"

text \<open>The same actions with every call of \<^verbatim>\<open>stop\<close> left out.\<close>

fun without_stop :: "action list \<Rightarrow> action list" where
  "without_stop [] = []"
| "without_stop (Act_stop # as) = without_stop as"
| "without_stop (a # as) = a # without_stop as"

section \<open>Executions: the critical sections in the order the lock grants them\<close>

text \<open>
  Both \<^verbatim>\<open>submitTask\<close> and the worker's block hold \<^verbatim>\<open>taskqueMutex\<close> from their last wake-up
  to the end, so an execution of any number of submitting threads and workers is a sequence
  of these sections, one after the other. \<open>Submit tp\<close> is the section of a \<^verbatim>\<open>submitTask\<close>
  whose wait has ended (by the predicate or by the time limit) in the current pool;
  \<open>Take\<close> is a worker at its wait: it takes the front task or, while \<^verbatim>\<open>taskSize\<close> is 0,
  stays blocked and changes nothing. The function gives the tasks taken, oldest first, and
  the pool at the end.
\<close>

datatype event = Submit ptr | Take

fun run_events :: "event list \<Rightarrow> ptr list \<times> ThreadPool \<Rightarrow> error + ptr list \<times> ThreadPool" where
  "run_events [] (out, p) = Inr (out, p)"
| "run_events (Submit tp # es) (out, p) = run_events es (out, submitTask [] tp p)"
| "run_events (Take # es) (out, p) =
     (case take_task p of
        None \<Rightarrow> run_events es (out, p)
      | Some (Inl e) \<Rightarrow> Inl e
      | Some (Inr (tp, p')) \<Rightarrow> run_events es (out @ [tp], p'))"

text \<open>The tasks an execution submits, in submission order.\<close>

fun submitted :: "event list \<Rightarrow> ptr list" where
  "submitted [] = []"
| "submitted (Submit tp # es) = tp # submitted es"
| "submitted (Take # es) = submitted es"

section \<open>Concrete objects for the examples\<close>

text \<open>The memory of a pool object before its constructor runs, here all zero bits.\<close>

definition zero_mem :: ThreadPool where
  "zero_mem = \<lparr>threads = [], initThreadSize = 0, threadCapacity = 0, currentThreadSize = 0,
     taskque = [], taskSize = 0, taskCapacity = 0, poolMode = MODE_FIXED, isRunning = False,
     idleThreadSize = 0\<rparr>"

text \<open>
  A valid and an invalid Result for the task at address 0, as the constructor leaves them,
  and two user tasks: one whose \<^verbatim>\<open>run\<close> throws, one whose \<^verbatim>\<open>run\<close> returns 42.
\<close>

definition fresh_result :: Result where
  "fresh_result = \<lparr>anyres = Any_default, sem = Semaphore_ctor 0, task = Some 0, isValid = True\<rparr>"

definition rejected_result :: Result where
  "rejected_result = \<lparr>anyres = Any_default, sem = Semaphore_ctor 0, task = Some 0, isValid = False\<rparr>"

definition failing_run :: "unit \<Rightarrow> (error + Any) \<times> unit" where
  "failing_run w = (Inl (TaskFailure ''boom''), w)"

definition answer_run :: "unit \<Rightarrow> (error + Any) \<times> unit" where
  "answer_run w = (Inr (Any_of (V_int 42)), w)"

text \<open>
  Stores: the failing task alone at address 0; the same task after a Result was constructed
  for it at address 1; and the answering task with its Result.
\<close>

definition bare_store :: "unit store" where
  "bare_store = \<lparr>tasks = [0 \<mapsto> Task_ctor failing_run], results = Map.empty, world = ()\<rparr>"

definition linked_store :: "unit store" where
  "linked_store =
     \<lparr>tasks = [0 \<mapsto> setResult (Some 1) (Task_ctor failing_run)],
      results = [1 \<mapsto> fresh_result], world = ()\<rparr>"

definition answering_store :: "unit store" where
  "answering_store =
     \<lparr>tasks = [0 \<mapsto> setResult (Some 1) (Task_ctor answer_run)],
      results = [1 \<mapsto> fresh_result], world = ()\<rparr>"

text \<open>The valid Result after 42 was stored in it once.\<close>

definition stored_result :: Result where
  "stored_result =
     \<lparr>anyres = Any_of (V_int 42), sem = Semaphore_ctor 1, task = Some 0, isValid = True\<rparr>"

text \<open>
  Processes. A new pool whose \<^verbatim>\<open>isRunning\<close> byte happens to be set, with the answering task
  in the store and no thread yet; the same after \<^verbatim>\<open>start(1)\<close>; and the same after the task
  was submitted and the worker made a round on it.
\<close>

definition new_process :: "unit Process" where
  "new_process =
     \<lparr>pool = ThreadPool_ctor (zero_mem\<lparr>isRunning := True\<rparr>), heap = answering_store,
      detached = [], terminated = None\<rparr>"

definition started_process :: "unit Process" where
  "started_process =
     \<lparr>pool = (ThreadPool_ctor (zero_mem\<lparr>isRunning := True\<rparr>))
               \<lparr>threads := [\<lparr>func = Bound_threadFunc\<rparr>], initThreadSize := 1\<rparr>,
      heap = answering_store, detached = [Bound_threadFunc], terminated = None\<rparr>"

definition served_process :: "unit Process" where
  "served_process =
     \<lparr>pool = (ThreadPool_ctor (zero_mem\<lparr>isRunning := True\<rparr>))
               \<lparr>threads := [\<lparr>func = Bound_threadFunc\<rparr>], initThreadSize := 1\<rparr>,
      heap = answering_store\<lparr>results := [1 \<mapsto> stored_result]\<rparr>,
      detached = [Bound_threadFunc], terminated = None\<rparr>"

text \<open>
  Two workers and the failing task, queued and linked to its Result; and what is left when
  the exception of the task has left a worker.
\<close>

definition failing_process :: "unit Process" where
  "failing_process =
     \<lparr>pool = submitTask [] (Some 0) (ThreadPool_ctor zero_mem), heap = linked_store,
      detached = [Bound_threadFunc, Bound_threadFunc], terminated = None\<rparr>"

definition aborted_process :: "unit Process" where
  "aborted_process =
     \<lparr>pool = ThreadPool_ctor zero_mem, heap = linked_store,
      detached = [], terminated = Some (TaskFailure ''boom'')\<rparr>"

text \<open>
  The counter and the queue agree: \<^verbatim>\<open>taskSize\<close> is the length of \<^verbatim>\<open>taskque\<close>, as far as 32
  bits can tell.
\<close>

definition count_agrees :: "ThreadPool \<Rightarrow> bool" where
  "count_agrees p = (taskSize p = of_nat (length (taskque p)))"

section \<open>Lemmas about the waits and the queue\<close>

lemma wait_for_fst: "fst (wait_for pred env p) = pred (snd (wait_for pred env p))"
  by (induction env arbitrary: p) auto

text \<open>
  A submit whose wait was interleaved with other threads is the locked section run in the
  pool that the wait ended in: this is the \<open>Submit\<close> event of an execution.
\<close>

lemma submitTask_after_wait:
  "submitTask env tp p = submitTask [] tp (snd (wait_for notFull env p))"
  by (simp add: submitTask_def split: prod.splits)

lemma word_less_add1_le:
  fixes a b :: "32 word"
  assumes "a < b"
  shows "a + 1 \<le> b"
  using assms by (simp add: inc_le)

lemma run_events_submits:
  "run_events (replicate n (Submit tp)) (out, p) =
     Inr (out, p\<lparr>taskque := taskque p @ replicate n tp, taskSize := taskSize p + of_nat n\<rparr>)"
proof (induction n arbitrary: p)
  case 0
  show ?case by simp
next
  case (Suc n)
  have "replicate n tp @ [tp] = tp # replicate n tp"
    by (simp add: replicate_append_same)
  then show ?case
    by (simp add: Suc submitTask_def add.assoc add.commute)
qed

lemma count_agrees_ctor: "count_agrees (ThreadPool_ctor mem)"
  by (simp add: count_agrees_def ThreadPool_ctor_def)

lemma count_agrees_submit: "count_agrees p \<Longrightarrow> count_agrees (submitTask [] tp p)"
  by (simp add: count_agrees_def submitTask_def)

text \<open>While the counter agrees with the queue, a worker never reads an empty queue.\<close>

lemma take_task_cases:
  assumes "count_agrees p"
  shows "take_task p = None \<or>
         (\<exists>tp rest. taskque p = tp # rest \<and>
            take_task p = Some (Inr (tp, p\<lparr>taskque := rest, taskSize := taskSize p - 1\<rparr>)))"
proof (cases "notEmpty p")
  case False
  then show ?thesis by (simp add: take_task_def)
next
  case True
  then have "taskSize p \<noteq> 0" by (simp add: notEmpty_def)
  with assms have "taskque p \<noteq> []" by (auto simp: count_agrees_def)
  then obtain tp rest where "taskque p = tp # rest" by (cases "taskque p") auto
  with True show ?thesis by (simp add: take_task_def)
qed

lemma run_events_fifo:
  "count_agrees p \<Longrightarrow>
   \<exists>out' p'. run_events es (out, p) = Inr (out', p') \<and>
     out' @ taskque p' = out @ taskque p @ submitted es \<and> count_agrees p'"
proof (induction es arbitrary: out p)
  case Nil
  then show ?case by simp
next
  case (Cons e es)
  show ?case
  proof (cases e)
    case (Submit tp)
    have ca: "count_agrees (submitTask [] tp p)"
      using Cons.prems by (rule count_agrees_submit)
    have q: "taskque (submitTask [] tp p) = taskque p @ [tp]"
      by (simp add: submitTask_def)
    from Cons.IH [OF ca, of out] q Submit show ?thesis by simp
  next
    case Take
    from take_task_cases [OF Cons.prems] show ?thesis
    proof
      assume n: "take_task p = None"
      from Cons.IH [OF Cons.prems, of out] n Take show ?thesis by simp
    next
      assume "\<exists>tp rest. taskque p = tp # rest \<and>
            take_task p = Some (Inr (tp, p\<lparr>taskque := rest, taskSize := taskSize p - 1\<rparr>))"
      then obtain tp rest where q: "taskque p = tp # rest"
        and t: "take_task p = Some (Inr (tp, p\<lparr>taskque := rest, taskSize := taskSize p - 1\<rparr>))"
        by blast
      have ca: "count_agrees (p\<lparr>taskque := rest, taskSize := taskSize p - 1\<rparr>)"
        using Cons.prems q by (simp add: count_agrees_def)
      from Cons.IH [OF ca, of "out @ [tp]"] q t Take show ?thesis by simp
    qed
  qed
qed

text \<open>From any pool, an execution that meets no undefined read takes tasks in queue order.\<close>

lemma run_events_order:
  "run_events es (out, p) = Inr (out', p') \<Longrightarrow>
   out' @ taskque p' = out @ taskque p @ submitted es"
proof (induction es arbitrary: out p)
  case Nil
  then show ?case by simp
next
  case (Cons e es)
  show ?case
  proof (cases e)
    case (Submit tp)
    with Cons.prems have "run_events es (out, submitTask [] tp p) = Inr (out', p')"
      by simp
    from Cons.IH [OF this] Submit show ?thesis
      by (simp add: submitTask_def)
  next
    case Take
    show ?thesis
    proof (cases "take_task p")
      case None
      with Cons.prems Take have "run_events es (out, p) = Inr (out', p')"
        by simp
      from Cons.IH [OF this] Take show ?thesis by simp
    next
      case (Some r)
      show ?thesis
      proof (cases r)
        case (Inl e)
        with Some Cons.prems Take show ?thesis by simp
      next
        case (Inr tq)
        obtain tp q where tq: "tq = (tp, q)" by (cases tq)
        with Some Inr Cons.prems Take have "run_events es (out @ [tp], q) = Inr (out', p')"
          by simp
        from Cons.IH [OF this] have a: "out' @ taskque p' = (out @ [tp]) @ taskque q @ submitted es" .
        from Some Inr tq have "taskque p = tp # taskque q"
          by (auto simp: take_task_def split: if_splits list.splits)
        with a Take show ?thesis by simp
      qed
    qed
  qed
qed

section \<open>Lemmas about start and the worker's round\<close>

lemma func_Bound: "func th = Bound_threadFunc"
  by (cases "func th") simp

lemma start_emplace_eq:
  "start_emplace n p = p\<lparr>threads := threads p @ replicate n \<lparr>func = Bound_threadFunc\<rparr>\<rparr>"
proof (induction n arbitrary: p)
  case 0
  show ?case by simp
next
  case (Suc n)
  show ?case by (simp add: Suc replicate_append_same)
qed

lemma start_begin_eq:
  "i + n \<le> length (threads (pool pr)) \<Longrightarrow>
   start_begin i n pr = Inr (pr\<lparr>detached := detached pr @ replicate n Bound_threadFunc\<rparr>)"
proof (induction n arbitrary: i pr)
  case 0
  show ?case by simp
next
  case (Suc n)
  let ?pr = "Thread_begin (threads (pool pr) ! i) pr"
  have b: "?pr = pr\<lparr>detached := detached pr @ [Bound_threadFunc]\<rparr>"
    by (simp add: Thread_begin_def func_Bound)
  then have "threads (pool ?pr) = threads (pool pr)"
    by simp
  with Suc.prems
  have "start_begin (Suc i) n ?pr = Inr (?pr\<lparr>detached := detached ?pr @ replicate n Bound_threadFunc\<rparr>)"
    by (intro Suc.IH) simp
  with Suc.prems b show ?case
    by (simp add: replicate_append_same)
qed

text \<open>
  What \<^verbatim>\<open>start\<close> does for a size that is not negative: it records the size, appends that
  many Thread objects and detaches that many threads. It writes no other member.
\<close>

lemma start_eq:
  assumes "0 \<le> sint sz"
  shows "start sz pr =
     Inr (pr\<lparr>pool := (pool pr)\<lparr>initThreadSize := scast sz,
                 threads := threads (pool pr) @ replicate (nat (sint sz)) \<lparr>func = Bound_threadFunc\<rparr>\<rparr>,
             detached := detached pr @ replicate (nat (sint sz)) Bound_threadFunc\<rparr>)"
proof -
  let ?n = "nat (sint sz)"
  let ?p2 = "start_emplace ?n ((pool pr)\<lparr>initThreadSize := scast sz\<rparr>)"
  have "0 + ?n \<le> length (threads (pool (pr\<lparr>pool := ?p2\<rparr>)))"
    by (simp add: start_emplace_eq)
  then have "start_begin 0 ?n (pr\<lparr>pool := ?p2\<rparr>) =
      Inr ((pr\<lparr>pool := ?p2\<rparr>)\<lparr>detached := detached (pr\<lparr>pool := ?p2\<rparr>) @ replicate ?n Bound_threadFunc\<rparr>)"
    by (rule start_begin_eq)
  with assms show ?thesis
    by (simp add: start_def Let_def start_emplace_eq)
qed

lemma start_one: "start 1 new_process = Inr started_process"
proof -
  have "(0::int) \<le> sint (1 :: 32 word)" by simp
  from start_eq [OF this, of new_process]
  show ?thesis
    by (simp add: started_process_def new_process_def ThreadPool_ctor_def zero_mem_def)
qed

lemma stored_result_built: "setAny (Any_of (V_int 42)) fresh_result = Inr stored_result"
  by (simp add: setAny_def post_def INT_MAX_def fresh_result_def stored_result_def
        Semaphore_ctor_def)

lemma serve_one: "run_process [Act_submit (Some 0), Act_round 0] started_process = Inr served_process"
proof -
  have t: "take_task (submitTask [] (Some 0) (pool started_process)) =
      Some (Inr (Some 0, pool started_process))"
    by (simp add: take_task_def notEmpty_def submitTask_def started_process_def
          ThreadPool_ctor_def zero_mem_def)
  have e: "exec (setResult (Some 1) (Task_ctor answer_run)) answering_store =
      Inr (answering_store\<lparr>results := [1 \<mapsto> stored_result]\<rparr>)"
    by (simp add: exec_def setResult_def Task_ctor_def answer_run_def answering_store_def
          stored_result_built)
  have k: "tasks answering_store 0 = Some (setResult (Some 1) (Task_ctor answer_run))"
    by (simp add: answering_store_def)
  have r: "threadFunc_round (submitTask [] (Some 0) (pool started_process)) answering_store =
      Next (pool started_process) (answering_store\<lparr>results := [1 \<mapsto> stored_result]\<rparr>)"
    using e by (simp add: threadFunc_round_def t k)
  have d: "terminated started_process = None" "detached started_process = [Bound_threadFunc]"
    "heap started_process = answering_store"
    by (simp_all add: started_process_def)
  have "thread_round 0 (started_process\<lparr>pool := submitTask [] (Some 0) (pool started_process)\<rparr>) =
      Inr served_process"
    by (simp add: thread_round_def d r) (simp add: started_process_def served_process_def)
  then show ?thesis
    by (simp add: d)
qed

lemma act_stop: "act Act_stop pr = Inr pr"
  by (simp add: stop_def)

lemma run_process_without_stop: "run_process (without_stop as) pr = run_process as pr"
proof (induction as arbitrary: pr)
  case Nil
  show ?case by simp
next
  case (Cons a as)
  show ?case
  proof (cases a)
    case Act_stop
    then show ?thesis
      by (simp add: Cons.IH stop_def)
  next
    case (Act_start sz)
    then show ?thesis
      by (simp add: Cons.IH split: sum.splits)
  next
    case (Act_submit tp)
    then show ?thesis
      by (simp add: Cons.IH split: sum.splits)
  next
    case (Act_round i)
    then show ?thesis
      by (simp add: Cons.IH split: sum.splits)
  qed
qed

lemma threadFunc_round_throw:
  assumes "take_task p = Some (Inr (Some ta, p'))" and "tasks h ta = Some t"
    and "exec t h = Inl (e, h')"
  shows "threadFunc (Suc n) p h = Threw e p' h'"
  using assms by (simp add: threadFunc_round_def)

lemma thread_round_throw:
  assumes "take_task (pool pr) = Some (Inr (Some ta, p'))" and "tasks (heap pr) ta = Some t"
    and "exec t (heap pr) = Inl (e, h')" and "terminated pr = None"
    and "i < length (detached pr)" and "e \<noteq> UndefinedBehaviour"
  shows "thread_round i pr =
     Inr (pr\<lparr>pool := p', heap := h', detached := [], terminated := Some e\<rparr>)"
proof -
  have "threadFunc_round (pool pr) (heap pr) = Threw e p' h'"
    using assms(1-3) by (simp add: threadFunc_round_def)
  with assms(4-6) show ?thesis
    by (cases e; cases "detached pr ! i") (simp_all add: thread_round_def)
qed

lemma linked_store_built: "Result_ctor 1 (Some 0) True bare_store = Inr linked_store"
  by (simp add: Result_ctor_def bare_store_def linked_store_def fresh_result_def)

lemma take_one_task:
  "take_task (submitTask [] (Some 0) (ThreadPool_ctor zero_mem)) =
     Some (Inr (Some 0, ThreadPool_ctor zero_mem))"
  by (simp add: take_task_def notEmpty_def submitTask_def ThreadPool_ctor_def zero_mem_def)

section \<open>Claim C1: what submitTask does with a task\<close>

text \<open>
  Claim C1, as amended. The claim says that a submit to a pool that is not running, or to a
  queue that stays full for the whole wait, returns an invalid Outcome and enqueues nothing.
  \<^verbatim>\<open>submitTask\<close> never reads the running flag. Whenever its wait ends with room in the queue
  (\<^verbatim>\<open>taskCapacity > taskSize\<close>), it appends the task at the back of the queue and adds one
  to the count, in the pool as the wait left it, whatever the running flag is; the flag
  keeps its value and the count stays within the capacity. The function is total: it
  signals nothing by an exception.
\<close>

theorem C1_submit_with_room:
  assumes "fst (wait_for notFull env p)"
  shows "submitTask env tp p =
           (snd (wait_for notFull env p))
             \<lparr>taskque := taskque (snd (wait_for notFull env p)) @ [tp],
              taskSize := taskSize (snd (wait_for notFull env p)) + 1\<rparr>
         \<and> isRunning (submitTask env tp p) = isRunning (snd (wait_for notFull env p))
         \<and> taskSize (submitTask env tp p) \<le> taskCapacity (submitTask env tp p)"
proof -
  obtain ok p1 where w: "wait_for notFull env p = (ok, p1)"
    by (cases "wait_for notFull env p")
  have "notFull p1"
    using assms wait_for_fst [of notFull env p] w by simp
  then have "taskSize p1 + 1 \<le> taskCapacity p1"
    by (simp add: notFull_def word_less_add1_le)
  then show ?thesis
    using w by (simp add: submitTask_def)
qed

text \<open>A new pool has room: the first task is enqueued and the count is 1.\<close>

theorem C1_submit_with_room_witness:
  "fst (wait_for notFull [] (ThreadPool_ctor zero_mem))
   \<and> taskque (submitTask [] (Some 7) (ThreadPool_ctor zero_mem)) = [Some 7]
   \<and> taskSize (submitTask [] (Some 7) (ThreadPool_ctor zero_mem)) \<le> 1024"
proof -
  have h: "fst (wait_for notFull [] (ThreadPool_ctor zero_mem))"
    by (simp add: notFull_def ThreadPool_ctor_def zero_mem_def TASK_MAX_THREADPOOL_def)
  show ?thesis
    using h C1_submit_with_room [OF h, of "Some 7"]
    by (simp add: ThreadPool_ctor_def zero_mem_def TASK_MAX_THREADPOOL_def)
qed

text \<open>
  The claim fails on a pool that is not running: the pool was constructed and never
  started, its flag is false, and the submitted task is in the queue afterwards.
\<close>

theorem C1_counterexample:
  "\<not> isRunning (ThreadPool_ctor zero_mem)
   \<and> taskque (ThreadPool_ctor zero_mem) = []
   \<and> taskque (submitTask [] (Some 7) (ThreadPool_ctor zero_mem)) = [Some 7]
   \<and> taskSize (submitTask [] (Some 7) (ThreadPool_ctor zero_mem)) = 1"
  by (simp add: submitTask_def ThreadPool_ctor_def zero_mem_def)

section \<open>Claim C2: the count and the capacity\<close>

text \<open>
  Claim C2 says that no sequence of submits and dequeues makes the number of queued tasks
  exceed the capacity. The code at the failing input: 1025 submits to a new pool with no
  worker. The first 1024 find room; the last finds \<^verbatim>\<open>taskCapacity > taskSize\<close> false, waits
  out its second with nobody touching the pool, and enqueues all the same. The queue then
  holds 1025 tasks and the count is 1025, against a capacity of 1024.
\<close>

theorem C2_capacity_exceeded:
  "run_events (replicate 1025 (Submit (Some 0))) ([], ThreadPool_ctor zero_mem) =
     Inr ([], (ThreadPool_ctor zero_mem)\<lparr>taskque := replicate 1025 (Some 0), taskSize := 1025\<rparr>)
   \<and> taskCapacity (ThreadPool_ctor zero_mem) = 1024
   \<and> \<not> notFull ((ThreadPool_ctor zero_mem)\<lparr>taskque := replicate 1024 (Some 0), taskSize := 1024\<rparr>)
   \<and> submitTask [] (Some 0)
        ((ThreadPool_ctor zero_mem)\<lparr>taskque := replicate 1024 (Some 0), taskSize := 1024\<rparr>) =
      (ThreadPool_ctor zero_mem)\<lparr>taskque := replicate 1025 (Some 0), taskSize := 1025\<rparr>"
proof -
  have a: "run_events (replicate 1025 (Submit (Some 0))) ([], ThreadPool_ctor zero_mem) =
     Inr ([], (ThreadPool_ctor zero_mem)\<lparr>taskque := replicate 1025 (Some 0), taskSize := 1025\<rparr>)"
    by (simp add: run_events_submits ThreadPool_ctor_def zero_mem_def)
  have b: "taskCapacity (ThreadPool_ctor zero_mem) = 1024"
    by (simp add: ThreadPool_ctor_def TASK_MAX_THREADPOOL_def)
  have c: "\<not> notFull ((ThreadPool_ctor zero_mem)\<lparr>taskque := replicate 1024 (Some 0), taskSize := 1024\<rparr>)"
    by (simp add: notFull_def ThreadPool_ctor_def TASK_MAX_THREADPOOL_def)
  have "replicate 1024 (Some (0::nat)) @ [Some 0] = replicate (Suc 1024) (Some 0)"
    by (simp only: replicate_append_same replicate_Suc)
  then have d: "submitTask [] (Some 0)
        ((ThreadPool_ctor zero_mem)\<lparr>taskque := replicate 1024 (Some 0), taskSize := 1024\<rparr>) =
      (ThreadPool_ctor zero_mem)\<lparr>taskque := replicate 1025 (Some 0), taskSize := 1025\<rparr>"
    by (simp add: submitTask_def ThreadPool_ctor_def zero_mem_def)
  show ?thesis
    using a b c d by blast
qed

section \<open>Claim C3: stop\<close>

text \<open>
  Claim C3, as amended. The claim says that stop clears the running flag, wakes the waiting
  threads and joins every worker, so that no worker runs once it has returned. \<^verbatim>\<open>stop()\<close>
  takes no argument and has an empty body: it leaves the running flag, the queue and the
  detached worker threads exactly as they were, and it ends no thread. Every worker that
  ran before the call runs after it, and whatever the threads of the process do, they do
  the same with the calls of \<^verbatim>\<open>stop()\<close> as without them.
\<close>

theorem C3_stop_changes_nothing:
  "stop pr = pr
   \<and> isRunning (pool (stop pr)) = isRunning (pool pr)
   \<and> detached (stop pr) = detached pr
   \<and> terminated (stop pr) = terminated pr
   \<and> run_process as pr = run_process (without_stop as) pr"
  by (simp add: stop_def run_process_without_stop)

text \<open>
  With or without the \<^verbatim>\<open>stop()\<close> after \<^verbatim>\<open>start(1)\<close>, the worker takes the task submitted
  next and stores its value.
\<close>

theorem C3_stop_changes_nothing_witness:
  "stop started_process = started_process
   \<and> run_process [Act_start 1, Act_stop, Act_submit (Some 0), Act_round 0] new_process =
       run_process [Act_start 1, Act_submit (Some 0), Act_round 0] new_process
   \<and> run_process [Act_start 1, Act_stop, Act_submit (Some 0), Act_round 0] new_process =
       Inr served_process"
proof -
  let ?as = "[Act_start 1, Act_stop, Act_submit (Some 0), Act_round 0]"
  have a: "stop started_process = started_process"
    using C3_stop_changes_nothing [of started_process "[]"] by blast
  have "run_process ?as new_process = run_process (without_stop ?as) new_process"
    using C3_stop_changes_nothing [of new_process ?as] by blast
  then have b: "run_process ?as new_process =
      run_process [Act_start 1, Act_submit (Some 0), Act_round 0] new_process"
    by simp
  have n: "terminated new_process = None"
    by (simp add: new_process_def)
  have "run_process [Act_start 1, Act_submit (Some 0), Act_round 0] new_process =
      run_process [Act_submit (Some 0), Act_round 0] started_process"
    by (simp add: n start_one)
  with b have c: "run_process ?as new_process = Inr served_process"
    by (simp only: serve_one)
  from a b c show ?thesis by blast
qed

text \<open>
  The claim fails after \<^verbatim>\<open>start(1)\<close> on a pool whose flag is set: when \<^verbatim>\<open>stop()\<close> has
  returned, the flag is still set and the worker is still there; it then takes the task
  that is submitted and stores the task's value in the Result.
\<close>

theorem C3_counterexample:
  "run_process [Act_start 1, Act_stop] new_process = Inr started_process
   \<and> isRunning (pool started_process)
   \<and> detached started_process = [Bound_threadFunc]
   \<and> terminated started_process = None
   \<and> run_process [Act_submit (Some 0), Act_round 0] started_process = Inr served_process
   \<and> taskque (pool served_process) = []
   \<and> results (heap served_process) 1 = Some stored_result"
proof -
  have n: "terminated new_process = None"
    by (simp add: new_process_def)
  have s: "terminated started_process = None"
    by (simp add: started_process_def)
  have a: "run_process [Act_start 1, Act_stop] new_process = Inr started_process"
    by (simp add: n s start_one stop_def)
  have b: "isRunning (pool started_process)"
    by (simp add: started_process_def ThreadPool_ctor_def zero_mem_def)
  have c: "detached started_process = [Bound_threadFunc]"
    by (simp add: started_process_def)
  have d: "taskque (pool served_process) = []"
    by (simp add: served_process_def ThreadPool_ctor_def)
  have e: "results (heap served_process) 1 = Some stored_result"
    by (simp add: served_process_def)
  from a b c s serve_one d e show ?thesis by blast
qed

section \<open>Claim C4: a second get\<close>

text \<open>
  Claim C4, as amended. The claim says that every get after the first returns the same
  cached value without blocking. \<^verbatim>\<open>Result::get\<close> keeps no copy: on a valid Result whose
  semaphore count is positive it returns the stored value by moving it out, which leaves
  the slot empty, and takes one from the count. After a single \<^verbatim>\<open>setAny\<close> the count is back
  at zero, and a second get blocks in \<^verbatim>\<open>sem.wait()\<close> until a value is stored again.
\<close>

theorem C4_get_takes_the_value:
  assumes "isValid r" and "0 < resource (sem r)"
  shows "get r = Some (anyres r,
                       r\<lparr>anyres := Any None, sem := (sem r)\<lparr>resource := resource (sem r) - 1\<rparr>\<rparr>)
         \<and> (resource (sem r) = 1 \<longrightarrow>
              get (r\<lparr>anyres := Any None, sem := (sem r)\<lparr>resource := resource (sem r) - 1\<rparr>\<rparr>) = None)"
  using assms by (simp add: get_def wait_def)

theorem C4_get_takes_the_value_witness:
  "setAny (Any_of (V_int 42)) fresh_result = Inr stored_result
   \<and> isValid stored_result
   \<and> 0 < resource (sem stored_result)
   \<and> get stored_result = Some (Any_of (V_int 42), fresh_result)
   \<and> get fresh_result = None"
proof -
  let ?r = "stored_result"
  have v: "isValid ?r"
    by (simp add: stored_result_def)
  have p: "0 < resource (sem ?r)"
    by (simp add: stored_result_def Semaphore_ctor_def)
  have one: "resource (sem ?r) = 1"
    by (simp add: stored_result_def Semaphore_ctor_def)
  have after: "?r\<lparr>anyres := Any None, sem := (sem ?r)\<lparr>resource := resource (sem ?r) - 1\<rparr>\<rparr> = fresh_result"
    by (simp add: stored_result_def fresh_result_def Semaphore_ctor_def Any_default_def)
  have val: "anyres ?r = Any_of (V_int 42)"
    by (simp add: stored_result_def)
  from C4_get_takes_the_value [OF v p] one
  have "get ?r = Some (anyres ?r, ?r\<lparr>anyres := Any None, sem := (sem ?r)\<lparr>resource := resource (sem ?r) - 1\<rparr>\<rparr>)"
    and "get (?r\<lparr>anyres := Any None, sem := (sem ?r)\<lparr>resource := resource (sem ?r) - 1\<rparr>\<rparr>) = None"
    by blast+
  then have "get ?r = Some (Any_of (V_int 42), fresh_result)" and "get fresh_result = None"
    by (simp_all only: after val)
  with stored_result_built v p show ?thesis by blast
qed

text \<open>
  The claim fails on a valid Result that received 42 once: the first get returns 42 and
  leaves the Result as it was before the value arrived; the second get does not return.
\<close>

theorem C4_counterexample:
  "isValid fresh_result
   \<and> setAny (Any_of (V_int 42)) fresh_result = Inr stored_result
   \<and> get stored_result = Some (Any_of (V_int 42), fresh_result)
   \<and> get fresh_result = None"
  by (simp add: get_def wait_def setAny_def post_def INT_MAX_def fresh_result_def
        stored_result_def Any_default_def Semaphore_ctor_def)

section \<open>Claim C5: a task that throws\<close>

text \<open>
  Claim C5, as amended. The claim says that a failure inside run is caught at the boundary
  of exec and stored as a value, so that the worker goes on and get returns. \<^verbatim>\<open>Task::exec\<close>
  and \<^verbatim>\<open>threadFunc\<close> have no handler. For a task linked to a live Result: when \<^verbatim>\<open>run\<close>
  returns a value and the post does not overflow, exec stores the value in the Result and
  posts its semaphore. When \<^verbatim>\<open>run\<close> throws, the exception leaves exec; the Result is
  exactly as it was, nothing stored and nothing posted, so a get on it, when it is valid
  and its count is not positive, does not return. The exception also leaves the loop of the
  worker that took the task, and an exception that leaves the function of a worker thread
  terminates the process: no worker is left.
\<close>

theorem C5_exec_has_no_handler:
  fixes t :: "'w Task" and h :: "'w store"
  assumes "result t = Some ra" and "results h ra = Some r"
  shows "(run t (world h) = (Inr a, w') \<and> setAny a r = Inr r' \<longrightarrow>
            exec t h = Inr (h\<lparr>results := (results h)(ra \<mapsto> r'), world := w'\<rparr>))
       \<and> (run t (world h) = (Inl e, w') \<longrightarrow>
            exec t h = Inl (e, h\<lparr>world := w'\<rparr>)
            \<and> results (h\<lparr>world := w'\<rparr>) ra = Some r
            \<and> (isValid r \<and> resource (sem r) \<le> 0 \<longrightarrow> get r = None)
            \<and> (\<forall>p p' ta n. take_task p = Some (Inr (Some ta, p')) \<and> tasks h ta = Some t \<longrightarrow>
                  threadFunc (Suc n) p h = Threw e p' (h\<lparr>world := w'\<rparr>))
            \<and> (\<forall>(pr :: 'w Process) p' ta i. take_task (pool pr) = Some (Inr (Some ta, p')) \<and>
                    tasks h ta = Some t \<and> heap pr = h \<and> terminated pr = None \<and>
                    i < length (detached pr) \<and> e \<noteq> UndefinedBehaviour \<longrightarrow>
                  thread_round i pr =
                    Inr (pr\<lparr>pool := p', heap := h\<lparr>world := w'\<rparr>, detached := [],
                            terminated := Some e\<rparr>)))"
proof (intro conjI impI allI)
  assume "run t (world h) = (Inr a, w') \<and> setAny a r = Inr r'"
  with assms show "exec t h = Inr (h\<lparr>results := (results h)(ra \<mapsto> r'), world := w'\<rparr>)"
    by (simp add: exec_def)
next
  assume "run t (world h) = (Inl e, w')"
  with assms show "exec t h = Inl (e, h\<lparr>world := w'\<rparr>)"
    by (simp add: exec_def)
next
  from assms show "results (h\<lparr>world := w'\<rparr>) ra = Some r"
    by simp
next
  assume "isValid r \<and> resource (sem r) \<le> 0"
  then show "get r = None"
    by (simp add: get_def wait_def)
next
  fix p p' ta n
  assume r: "run t (world h) = (Inl e, w')"
    and "take_task p = Some (Inr (Some ta, p')) \<and> tasks h ta = Some t"
  then have tk: "take_task p = Some (Inr (Some ta, p'))" and tt: "tasks h ta = Some t"
    by simp_all
  from assms r have "exec t h = Inl (e, h\<lparr>world := w'\<rparr>)"
    by (simp add: exec_def)
  with tk tt show "threadFunc (Suc n) p h = Threw e p' (h\<lparr>world := w'\<rparr>)"
    by (rule threadFunc_round_throw)
next
  fix pr :: "'w Process" and p' ta i
  assume r: "run t (world h) = (Inl e, w')"
    and c: "take_task (pool pr) = Some (Inr (Some ta, p')) \<and>
            tasks h ta = Some t \<and> heap pr = h \<and> terminated pr = None \<and>
            i < length (detached pr) \<and> e \<noteq> UndefinedBehaviour"
  from assms r have x: "exec t h = Inl (e, h\<lparr>world := w'\<rparr>)"
    by (simp add: exec_def)
  from c have hp: "heap pr = h"
    by simp
  have "thread_round i pr =
      Inr (pr\<lparr>pool := p', heap := h\<lparr>world := w'\<rparr>, detached := [], terminated := Some e\<rparr>)"
  proof (rule thread_round_throw)
    show "take_task (pool pr) = Some (Inr (Some ta, p'))" using c by simp
    show "tasks (heap pr) ta = Some t" using c by simp
    show "exec t (heap pr) = Inl (e, h\<lparr>world := w'\<rparr>)" using x hp by simp
    show "terminated pr = None" using c by simp
    show "i < length (detached pr)" using c by simp
    show "e \<noteq> UndefinedBehaviour" using c by simp
  qed
  then show "thread_round i pr =
      Inr (pr\<lparr>pool := p', heap := h\<lparr>world := w'\<rparr>, detached := [], terminated := Some e\<rparr>)" .
qed

theorem C5_exec_has_no_handler_witness:
  "result (setResult (Some 1) (Task_ctor failing_run)) = Some 1
   \<and> results linked_store 1 = Some fresh_result
   \<and> run (setResult (Some 1) (Task_ctor failing_run)) (world linked_store) =
       (Inl (TaskFailure ''boom''), ())
   \<and> exec (setResult (Some 1) (Task_ctor failing_run)) linked_store =
       Inl (TaskFailure ''boom'', linked_store)
   \<and> isValid fresh_result \<and> resource (sem fresh_result) \<le> 0
   \<and> get fresh_result = None
   \<and> threadFunc (Suc 0) (submitTask [] (Some 0) (ThreadPool_ctor zero_mem)) linked_store =
       Threw (TaskFailure ''boom'') (ThreadPool_ctor zero_mem) linked_store
   \<and> thread_round 0 failing_process = Inr aborted_process
   \<and> run (setResult (Some 1) (Task_ctor answer_run)) (world answering_store) =
       (Inr (Any_of (V_int 42)), ())
   \<and> setAny (Any_of (V_int 42)) fresh_result = Inr stored_result
   \<and> exec (setResult (Some 1) (Task_ctor answer_run)) answering_store =
       Inr (answering_store\<lparr>results := [1 \<mapsto> stored_result]\<rparr>)"
proof -
  let ?t = "setResult (Some 1) (Task_ctor failing_run)"
  let ?u = "setResult (Some 1) (Task_ctor answer_run)"
  have h1: "result ?t = Some 1"
    by (simp add: setResult_def)
  have h2: "results linked_store 1 = Some fresh_result"
    by (simp add: linked_store_def)
  have h3: "run ?t (world linked_store) = (Inl (TaskFailure ''boom''), ())"
    by (simp add: setResult_def Task_ctor_def failing_run_def)
  have h4: "tasks linked_store 0 = Some ?t"
    by (simp add: linked_store_def)
  have h5: "isValid fresh_result" and h6: "resource (sem fresh_result) \<le> 0"
    by (simp_all add: fresh_result_def Semaphore_ctor_def)
  have w: "linked_store\<lparr>world := ()\<rparr> = linked_store"
    by simp
  note inst = C5_exec_has_no_handler [OF h1 h2, of "Any_default" "()" fresh_result
      "TaskFailure ''boom''"]
  have a: "exec ?t linked_store = Inl (TaskFailure ''boom'', linked_store)"
    using inst h3 w by simp
  have g: "get fresh_result = None"
    using inst h3 h5 h6 by blast
  have "threadFunc (Suc 0) (submitTask [] (Some 0) (ThreadPool_ctor zero_mem)) linked_store =
       Threw (TaskFailure ''boom'') (ThreadPool_ctor zero_mem) (linked_store\<lparr>world := ()\<rparr>)"
    using inst h3 h4 take_one_task by blast
  then have b: "threadFunc (Suc 0) (submitTask [] (Some 0) (ThreadPool_ctor zero_mem)) linked_store =
       Threw (TaskFailure ''boom'') (ThreadPool_ctor zero_mem) linked_store"
    by (simp only: w)
  have p1: "take_task (pool failing_process) = Some (Inr (Some 0, ThreadPool_ctor zero_mem))"
    using take_one_task by (simp add: failing_process_def)
  have p2: "heap failing_process = linked_store" and p3: "terminated failing_process = None"
    and p4: "0 < length (detached failing_process)"
    by (simp_all add: failing_process_def)
  have p5: "TaskFailure ''boom'' \<noteq> UndefinedBehaviour"
    by simp
  have "thread_round 0 failing_process =
      Inr (failing_process\<lparr>pool := ThreadPool_ctor zero_mem, heap := linked_store\<lparr>world := ()\<rparr>,
             detached := [], terminated := Some (TaskFailure ''boom'')\<rparr>)"
    using inst h3 h4 p1 p2 p3 p4 p5 by blast
  then have c: "thread_round 0 failing_process = Inr aborted_process"
    by (simp add: failing_process_def aborted_process_def)
  have k1: "result ?u = Some 1"
    by (simp add: setResult_def)
  have k2: "results answering_store 1 = Some fresh_result"
    by (simp add: answering_store_def)
  have k3: "run ?u (world answering_store) = (Inr (Any_of (V_int 42)), ())"
    by (simp add: setResult_def Task_ctor_def answer_run_def)
  have "exec ?u answering_store =
      Inr (answering_store\<lparr>results := (results answering_store)(1 \<mapsto> stored_result),
                           world := ()\<rparr>)"
    using C5_exec_has_no_handler [OF k1 k2, of "Any_of (V_int 42)" "()" stored_result
        "TaskFailure []"] k3 stored_result_built
    by blast
  then have d: "exec ?u answering_store =
       Inr (answering_store\<lparr>results := [1 \<mapsto> stored_result]\<rparr>)"
    by (simp add: answering_store_def)
  from h1 h2 h3 a h5 h6 g b c k3 stored_result_built d show ?thesis by blast
qed

text \<open>
  The claim fails for the task whose \<^verbatim>\<open>run\<close> throws, linked to a Result by the Result's
  constructor and submitted to a new pool with two workers: the exception leaves exec and
  the round of the worker that took the task, the process is terminated with no worker
  left, the Result is untouched, and a get on it does not return.
\<close>

theorem C5_counterexample:
  "Result_ctor 1 (Some 0) True bare_store = Inr linked_store
   \<and> exec (setResult (Some 1) (Task_ctor failing_run)) linked_store =
       Inl (TaskFailure ''boom'', linked_store)
   \<and> threadFunc (Suc 0) (submitTask [] (Some 0) (ThreadPool_ctor zero_mem)) linked_store =
       Threw (TaskFailure ''boom'') (ThreadPool_ctor zero_mem) linked_store
   \<and> thread_round 0 failing_process = Inr aborted_process
   \<and> detached aborted_process = []
   \<and> terminated aborted_process = Some (TaskFailure ''boom'')
   \<and> results (heap aborted_process) 1 = Some fresh_result
   \<and> get fresh_result = None"
proof -
  have e: "exec (setResult (Some 1) (Task_ctor failing_run)) linked_store =
       Inl (TaskFailure ''boom'', linked_store)"
    by (simp add: exec_def setResult_def Task_ctor_def failing_run_def linked_store_def)
  have t: "tasks linked_store 0 = Some (setResult (Some 1) (Task_ctor failing_run))"
    by (simp add: linked_store_def)
  have th: "threadFunc (Suc 0) (submitTask [] (Some 0) (ThreadPool_ctor zero_mem)) linked_store =
       Threw (TaskFailure ''boom'') (ThreadPool_ctor zero_mem) linked_store"
    using take_one_task t e by (rule threadFunc_round_throw)
  have "thread_round 0 failing_process =
      Inr (failing_process\<lparr>pool := ThreadPool_ctor zero_mem, heap := linked_store,
             detached := [], terminated := Some (TaskFailure ''boom'')\<rparr>)"
  proof (rule thread_round_throw)
    show "take_task (pool failing_process) = Some (Inr (Some 0, ThreadPool_ctor zero_mem))"
      using take_one_task by (simp add: failing_process_def)
    show "tasks (heap failing_process) 0 = Some (setResult (Some 1) (Task_ctor failing_run))"
      using t by (simp add: failing_process_def)
    show "exec (setResult (Some 1) (Task_ctor failing_run)) (heap failing_process) =
        Inl (TaskFailure ''boom'', linked_store)"
      using e by (simp add: failing_process_def)
    show "terminated failing_process = None"
      by (simp add: failing_process_def)
    show "0 < length (detached failing_process)"
      by (simp add: failing_process_def)
    show "TaskFailure ''boom'' \<noteq> UndefinedBehaviour"
      by simp
  qed
  then have tr: "thread_round 0 failing_process = Inr aborted_process"
    by (simp add: failing_process_def aborted_process_def)
  have d: "detached aborted_process = []"
    and x: "terminated aborted_process = Some (TaskFailure ''boom'')"
    by (simp_all add: aborted_process_def)
  have r: "results (heap aborted_process) 1 = Some fresh_result"
    by (simp add: aborted_process_def linked_store_def)
  have g: "get fresh_result = None"
    by (simp add: get_def wait_def fresh_result_def Semaphore_ctor_def)
  from linked_store_built e th tr d x r g show ?thesis by blast
qed

section \<open>Claim C6: get on an invalid Result\<close>

text \<open>
  Claim C6. For every Outcome marked invalid at construction, get returns at once with the
  sentinel, the empty C string, and never waits on the semaphore: whatever the count is, the
  call returns and leaves the Result unchanged.
\<close>

theorem C6_invalid_get_returns_at_once:
  assumes "\<not> isValid r"
  shows "get r = Some (Any_of (V_cstr ''''), r)"
  using assms by (simp add: get_def)

theorem C6_invalid_get_returns_at_once_witness:
  "\<not> isValid rejected_result
   \<and> resource (sem rejected_result) = 0
   \<and> get rejected_result = Some (Any_of (V_cstr ''''), rejected_result)"
proof -
  have h: "\<not> isValid rejected_result"
    by (simp add: rejected_result_def)
  have z: "resource (sem rejected_result) = 0"
    by (simp add: rejected_result_def Semaphore_ctor_def)
  from h z C6_invalid_get_returns_at_once [OF h] show ?thesis by blast
qed

section \<open>Claim C7: the checked cast\<close>

text \<open>
  Claim C7. For every TypedBox constructed from a value of concrete type T, the cast to T
  returns that value; for every requested type U different from the stored type, the cast to
  U fails with the TypeMismatch error (a cast to int of a box holding a string fails) and
  converts nothing.
\<close>

theorem C7_cast_checked:
  "Any_cast (type_of v) (Any_of v) = Inr v
   \<and> (U \<noteq> type_of v \<longrightarrow> Any_cast U (Any_of v) = Inl TypeMismatch)"
  by (simp add: Any_cast_def Any_of_def)

theorem C7_cast_checked_witness:
  "T_int \<noteq> type_of (V_string ''abc'')
   \<and> Any_cast T_string (Any_of (V_string ''abc'')) = Inr (V_string ''abc'')
   \<and> Any_cast T_int (Any_of (V_string ''abc'')) = Inl TypeMismatch"
proof -
  have d: "T_int \<noteq> type_of (V_string ''abc'')"
    by simp
  have s: "type_of (V_string ''abc'') = T_string"
    by simp
  from C7_cast_checked [of "V_string ''abc''" T_int] d
  have "Any_cast (type_of (V_string ''abc'')) (Any_of (V_string ''abc'')) = Inr (V_string ''abc'')"
    and "Any_cast T_int (Any_of (V_string ''abc'')) = Inl TypeMismatch"
    by blast+
  with d s show ?thesis by simp
qed

section \<open>Claim C8: first in, first out\<close>

text \<open>
  Claim C8. Tasks are taken in the order in which they were submitted. In every execution
  on a new pool no worker reads an empty queue, and the tasks taken so far, followed by the
  tasks still queued, are the tasks submitted, in submission order: the k-th task taken
  is the k-th task submitted, so of two accepted tasks the one submitted first is taken
  first. From any other pool the same order holds for every execution that meets no
  undefined read, the tasks already queued going first.
\<close>

theorem C8_fifo:
  "(\<exists>out p'. run_events es ([], ThreadPool_ctor mem) = Inr (out, p') \<and>
      out @ taskque p' = submitted es \<and> out = take (length out) (submitted es))
   \<and> (\<forall>p out p'. run_events es ([], p) = Inr (out, p') \<longrightarrow>
        out @ taskque p' = taskque p @ submitted es)"
proof (intro conjI allI impI)
  from run_events_fifo [OF count_agrees_ctor, of es "[]" mem]
  obtain out p' where r: "run_events es ([], ThreadPool_ctor mem) = Inr (out, p')"
    and a: "out @ taskque p' = [] @ taskque (ThreadPool_ctor mem) @ submitted es"
    by blast
  have "taskque (ThreadPool_ctor mem) = []"
    by (simp add: ThreadPool_ctor_def)
  with a have b: "out @ taskque p' = submitted es"
    by simp
  then have "take (length out) (submitted es) = out"
    by (metis append_eq_conv_conj)
  with r b show "\<exists>out p'. run_events es ([], ThreadPool_ctor mem) = Inr (out, p') \<and>
      out @ taskque p' = submitted es \<and> out = take (length out) (submitted es)"
    by auto
next
  fix p out p'
  assume "run_events es ([], p) = Inr (out, p')"
  from run_events_order [OF this] show "out @ taskque p' = taskque p @ submitted es"
    by simp
qed

text \<open>Three submits and two takes: tasks 1 and 2 are taken, in this order; 3 is queued.\<close>

theorem C8_fifo_witness:
  "run_events [Submit (Some 1), Submit (Some 2), Take, Submit (Some 3), Take]
       ([], ThreadPool_ctor zero_mem) =
     Inr ([Some 1, Some 2], (ThreadPool_ctor zero_mem)\<lparr>taskque := [Some 3], taskSize := 1\<rparr>)
   \<and> [Some 1, Some 2] @ taskque ((ThreadPool_ctor zero_mem)\<lparr>taskque := [Some 3], taskSize := 1\<rparr>) =
       taskque (ThreadPool_ctor zero_mem) @ [Some 1, Some 2, Some 3]"
proof -
  let ?es = "[Submit (Some 1), Submit (Some 2), Take, Submit (Some 3), Take]"
  have r: "run_events ?es ([], ThreadPool_ctor zero_mem) =
     Inr ([Some 1, Some 2], (ThreadPool_ctor zero_mem)\<lparr>taskque := [Some 3], taskSize := 1\<rparr>)"
    by (simp add: submitTask_def take_task_def notEmpty_def ThreadPool_ctor_def zero_mem_def)
  have s: "submitted ?es = [Some 1, Some 2, Some 3]"
    by simp
  from C8_fifo [of ?es zero_mem] r
  have "[Some 1, Some 2] @ taskque ((ThreadPool_ctor zero_mem)\<lparr>taskque := [Some 3], taskSize := 1\<rparr>) =
       taskque (ThreadPool_ctor zero_mem) @ submitted ?es"
    by blast
  with r s show ?thesis by (simp only:)
qed

section \<open>Claim C9: setTaskCapacity\<close>

text \<open>
  Claim C9 says that setting the queue capacity updates only the capacity and leaves the
  live task count unchanged. The code at the failing input, \<^verbatim>\<open>setTaskCapacity(8)\<close> on a new
  pool: the call writes 8 into the task count, which was 0, and the capacity is 1024 before
  and after.
\<close>

theorem C9_setter_writes_count:
  "setTaskCapacity 8 (ThreadPool_ctor zero_mem) = (ThreadPool_ctor zero_mem)\<lparr>taskSize := 8\<rparr>
   \<and> taskSize (ThreadPool_ctor zero_mem) = 0
   \<and> taskSize (setTaskCapacity 8 (ThreadPool_ctor zero_mem)) = 8
   \<and> taskCapacity (setTaskCapacity 8 (ThreadPool_ctor zero_mem)) = 1024
   \<and> taskCapacity (ThreadPool_ctor zero_mem) = 1024"
  by (simp add: setTaskCapacity_def ThreadPool_ctor_def TASK_MAX_THREADPOOL_def)

section \<open>Claim C10: exec on a task without a Result\<close>

text \<open>
  Claim C10. \<^verbatim>\<open>Task::exec\<close> on a task whose Result pointer is null, as the Task constructor
  sets it, returns at once: it returns normally and leaves the store, the world of the user
  code included, exactly as it was, whatever the task's \<^verbatim>\<open>run\<close> would do or throw. So
  \<^verbatim>\<open>run\<close> is invoked by exec only for a task that a \<^verbatim>\<open>setResult\<close> has linked to a Result.
\<close>

theorem C10_exec_without_result:
  "exec (Task_ctor f) h = Inr h \<and> (result t = None \<longrightarrow> exec t h = Inr h)"
  by (simp add: exec_def Task_ctor_def)

theorem C10_exec_without_result_witness:
  "result (Task_ctor failing_run) = None
   \<and> fst (failing_run ()) = Inl (TaskFailure ''boom'')
   \<and> exec (Task_ctor failing_run) bare_store = Inr bare_store"
proof -
  have n: "result (Task_ctor failing_run) = None"
    by (simp add: Task_ctor_def)
  have f: "fst (failing_run ()) = Inl (TaskFailure ''boom'')"
    by (simp add: failing_run_def)
  from C10_exec_without_result [of failing_run bare_store "Task_ctor failing_run"] n
  have "exec (Task_ctor failing_run) bare_store = Inr bare_store"
    by blast
  with n f show ?thesis by blast
qed

end
